theory Spec2Isabelle
  imports Main
begin

section \<open>Tokens and failures\<close>

text \<open>
  Modelled from the spec: \<^verbatim>\<open>token.h\<close> and \<^verbatim>\<open>mypl_exception.h\<close> are included by the
  sources but are not among them. The token kinds are the closed enumeration of the
  spec's data model, under the names \<^verbatim>\<open>lexer.h\<close> and \<^verbatim>\<open>parser.h\<close> use. The kind
  \<^verbatim>\<open>TYPE\<close> is written \<open>TYPE_KW\<close> because \<open>TYPE\<close> is reserved in HOL terms.
\<close>

datatype TokenType =
    INT_VAL | DOUBLE_VAL | BOOL_VAL | CHAR_VAL | STRING_VAL
  | ID
  | TYPE_KW | FUN | VAR | IF | THEN | ELSEIF | ELSE | END
  | WHILE | FOR | TO | DO | RETURN | NEW | NIL | NOT | NEG | AND | OR
  | INT_TYPE | DOUBLE_TYPE | BOOL_TYPE | CHAR_TYPE | STRING_TYPE
  | COMMA | LPAREN | RPAREN | COLON | DOT | ASSIGN
  | PLUS | MINUS | MULTIPLY | DIVIDE | MODULO
  | EQUAL | NOT_EQUAL | LESS | LESS_EQUAL | GREATER | GREATER_EQUAL
  | EOS

text \<open>A token: kind, lexeme, line, column (the four arguments of the constructor
  \<^verbatim>\<open>Token(type, lexeme, line, column)\<close>).\<close>

datatype Token = Token (type: TokenType) (lexeme: string) (tok_line: int) (tok_column: int)

datatype ErrorKind = LEXER | SYNTAX

text \<open>
  How a call ends when it does not return:
  \<^item> it throws \<^verbatim>\<open>MyPLException(kind, msg, line, column)\<close>;
  \<^item> the library throws \<^verbatim>\<open>std::length_error\<close>;
  \<^item> it writes through a null pointer. That is undefined behaviour in C++; the program is
    taken to stop there, and nothing it would have done afterwards is modelled.
\<close>

datatype Failure =
    MyPLException ErrorKind string int int
  | LengthError
  | NullDereference

text \<open>
  The outcome of a call: \<open>None\<close> when the call never returns, \<open>Some (Inl e)\<close> when it
  ends with the failure \<open>e\<close>, \<open>Some (Inr v)\<close> when it returns \<open>v\<close>.
\<close>

type_synonym 'a result = "(Failure + 'a) option"

definition bind :: "'a result \<Rightarrow> ('a \<Rightarrow> 'b result) \<Rightarrow> 'b result" where
  "bind m f = (case m of None \<Rightarrow> None | Some (Inl e) \<Rightarrow> Some (Inl e) | Some (Inr v) \<Rightarrow> f v)"

definition ret :: "'a \<Rightarrow> 'a result" where
  "ret v = Some (Inr v)"

section \<open>Lexer (lexer.h)\<close>

text \<open>
  The input stream is the list of characters not yet read. \<^verbatim>\<open>peek()\<close> and \<^verbatim>\<open>read()\<close>
  return a \<^verbatim>\<open>char\<close>: at the end of the stream the stream's \<^verbatim>\<open>EOF\<close> (the int -1)
  becomes the char with all bits set, which the comparisons \<^verbatim>\<open>peek() == EOF\<close> promote
  back to -1 (char is signed on the platforms the program targets).
\<close>

record Lexer =
  input_stream :: string
  line :: int
  column :: int

definition Lexer_new :: "string \<Rightarrow> Lexer" where
  "Lexer_new s = \<lparr>input_stream = s, line = 1, column = 1\<rparr>"

definition EOF :: char where
  "EOF = CHR 0xFF"

definition peek :: "Lexer \<Rightarrow> char" where
  "peek l = (case input_stream l of [] \<Rightarrow> EOF | c # cs \<Rightarrow> c)"

definition read :: "Lexer \<Rightarrow> char \<times> Lexer" where
  "read l = (case input_stream l of
       [] \<Rightarrow> (EOF, l\<lparr>column := column l + 1\<rparr>)
     | c # cs \<Rightarrow> (c, l\<lparr>input_stream := cs, column := column l + 1\<rparr>))"

definition Lexer_error :: "string \<Rightarrow> int \<Rightarrow> int \<Rightarrow> 'a result" where
  "Lexer_error msg ln col = Some (Inl (MyPLException LEXER msg ln col))"

text \<open>The character classes of \<^verbatim>\<open><cctype>\<close> in the default C locale.\<close>

definition isspace :: "char \<Rightarrow> bool" where
  "isspace c = (c = CHR '' '' \<or> c = CHR 0x09 \<or> c = CHR 0x0A \<or> c = CHR 0x0B
              \<or> c = CHR 0x0C \<or> c = CHR 0x0D)"

definition isdigit :: "char \<Rightarrow> bool" where
  "isdigit c = (of_char (CHR ''0'') \<le> (of_char c :: nat) \<and> (of_char c :: nat) \<le> of_char (CHR ''9''))"

definition isalpha :: "char \<Rightarrow> bool" where
  "isalpha c =
     ((of_char (CHR ''a'') \<le> (of_char c :: nat) \<and> (of_char c :: nat) \<le> of_char (CHR ''z''))
    \<or> (of_char (CHR ''A'') \<le> (of_char c :: nat) \<and> (of_char c :: nat) \<le> of_char (CHR ''Z'')))"

subsection \<open>Skipping whitespace and comments\<close>

text \<open>
  The three nested loops at the head of \<^verbatim>\<open>Lexer::next_token\<close>. None of them tests for
  the end of the stream, so each is a partial function: \<open>None\<close> is the loop that never
  ends.

  \<open>comment_line\<close> is \<^verbatim>\<open>while(peek() != '\n') read();\<close>
\<close>

partial_function (option) comment_line :: "Lexer \<Rightarrow> Lexer option" where
  "comment_line l = (if peek l \<noteq> CHR 0x0A then comment_line (snd (read l)) else Some l)"

text \<open>\<open>comment_lines\<close> is \<^verbatim>\<open>while(comment){...}\<close>: it runs as long as the character
  after the newline is another \<^verbatim>\<open>#\<close>.\<close>

partial_function (option) comment_lines :: "Lexer \<Rightarrow> Lexer option" where
  "comment_lines l =
     (case comment_line l of
        None \<Rightarrow> None
      | Some l1 \<Rightarrow>
          (let l2 = snd (read (l1\<lparr>line := line l1 + 1, column := 0\<rparr>))
           in if peek l2 \<noteq> CHR ''#'' then Some l2 else comment_lines l2))"

text \<open>\<open>skip\<close> is the outer \<^verbatim>\<open>while(std::isspace(peek()) || peek() == '#')\<close>.\<close>

partial_function (option) skip :: "Lexer \<Rightarrow> Lexer option" where
  "skip l =
     (if isspace (peek l) \<or> peek l = CHR ''#'' then
        (if peek l = CHR ''#'' then
           (case comment_lines (snd (read l)) of None \<Rightarrow> None | Some l1 \<Rightarrow> skip l1)
         else if peek l = CHR 0x0A then
           (let l1 = snd (read l) in skip (l1\<lparr>line := line l1 + 1, column := 0\<rparr>))
         else skip (snd (read l)))
      else Some l)"

subsection \<open>The loops of the literals\<close>

text \<open>
  The body of a string: \<^verbatim>\<open>while(peek() != '\n' && peek() != '\"')\<close>. After a backslash
  the loop appends the backslash, then a quote if one follows, and then in every case one
  more character. The loop does not test for the end of the stream either.
\<close>

partial_function (option) string_loop :: "string \<Rightarrow> Lexer \<Rightarrow> (string \<times> Lexer) option" where
  "string_loop s l =
     (if peek l \<noteq> CHR 0x0A \<and> peek l \<noteq> CHR 0x22 then
        (let (s1, l1) =
               (if peek l = CHR 0x5C then
                  (let (c, la) = read l; sa = s @ [c]
                   in if peek la = CHR 0x22
                      then (let (d, lb) = read la in (sa @ [d], lb))
                      else (sa, la))
                else (s, l));
             (e, l2) = read l1
         in string_loop (s1 @ [e]) l2)
      else Some (s, l))"

text \<open>The integer part:
  \<^verbatim>\<open>while(!std::isspace(peek()) && peek()!='.' && std::isdigit(peek()))\<close>.\<close>

function int_digits :: "string \<Rightarrow> Lexer \<Rightarrow> string \<times> Lexer" where
  "int_digits s l =
     (if \<not> isspace (peek l) \<and> peek l \<noteq> CHR ''.'' \<and> isdigit (peek l)
      then (case read l of (c, l1) \<Rightarrow> int_digits (s @ [c]) l1)
      else (s, l))"
  by pat_completeness auto
termination
  by (relation "measure (\<lambda>(s, l). length (input_stream l))")
     (auto simp: peek_def read_def isdigit_def EOF_def split: list.splits)

text \<open>The fraction: \<^verbatim>\<open>while(!std::isspace(peek()) && std::isdigit(peek()))\<close>.\<close>

function frac_digits :: "string \<Rightarrow> Lexer \<Rightarrow> string \<times> Lexer" where
  "frac_digits s l =
     (if \<not> isspace (peek l) \<and> isdigit (peek l)
      then (case read l of (c, l1) \<Rightarrow> frac_digits (s @ [c]) l1)
      else (s, l))"
  by pat_completeness auto
termination
  by (relation "measure (\<lambda>(s, l). length (input_stream l))")
     (auto simp: peek_def read_def isdigit_def EOF_def split: list.splits)

text \<open>A word:
  \<^verbatim>\<open>while(std::isalpha(peek()) || peek() == '_' || std::isdigit(peek()))\<close>.\<close>

function word_chars :: "string \<Rightarrow> Lexer \<Rightarrow> string \<times> Lexer" where
  "word_chars s l =
     (if isalpha (peek l) \<or> peek l = CHR ''_'' \<or> isdigit (peek l)
      then (case read l of (c, l1) \<Rightarrow> word_chars (s @ [c]) l1)
      else (s, l))"
  by pat_completeness auto
termination
  by (relation "measure (\<lambda>(s, l). length (input_stream l))")
     (auto simp: peek_def read_def isalpha_def isdigit_def EOF_def split: list.splits)

declare int_digits.simps [simp del] frac_digits.simps [simp del] word_chars.simps [simp del]

text \<open>The chain of comparisons that classifies a word.\<close>

definition reserved :: "string \<Rightarrow> TokenType" where
  "reserved w =
     (if w = ''neg'' then NEG
      else if w = ''and'' then AND
      else if w = ''or'' then OR
      else if w = ''not'' then NOT
      else if w = ''type'' then TYPE_KW
      else if w = ''while'' then WHILE
      else if w = ''for'' then FOR
      else if w = ''to'' then TO
      else if w = ''do'' then DO
      else if w = ''if'' then IF
      else if w = ''then'' then THEN
      else if w = ''elseif'' then ELSEIF
      else if w = ''else'' then ELSE
      else if w = ''end'' then END
      else if w = ''fun'' then FUN
      else if w = ''var'' then VAR
      else if w = ''return'' then RETURN
      else if w = ''new'' then NEW
      else if w = ''bool'' then BOOL_TYPE
      else if w = ''int'' then INT_TYPE
      else if w = ''double'' then DOUBLE_TYPE
      else if w = ''char'' then CHAR_TYPE
      else if w = ''string'' then STRING_TYPE
      else if w = ''nil'' then NIL
      else if w = ''true'' \<or> w = ''false'' then BOOL_VAL
      else ID)"

subsection \<open>\<^verbatim>\<open>Lexer::next_token\<close>\<close>

text \<open>\<^verbatim>\<open>read(); return Token(t, s, line, column-1);\<close>, the body of the ten branches of
  the one-character symbols.\<close>

definition symbol :: "TokenType \<Rightarrow> string \<Rightarrow> Lexer \<Rightarrow> (Token \<times> Lexer) result" where
  "symbol t s l = (let l1 = snd (read l) in ret (Token t s (line l1) (column l1 - 1), l1))"

text \<open>The branches of \<^verbatim>\<open>=\<close>, \<^verbatim>\<open><\<close> and \<^verbatim>\<open>>\<close>: the two-character token when \<^verbatim>\<open>=\<close>
  follows, the one-character token otherwise.\<close>

definition symbol2 ::
  "TokenType \<Rightarrow> string \<Rightarrow> TokenType \<Rightarrow> string \<Rightarrow> Lexer \<Rightarrow> (Token \<times> Lexer) result" where
  "symbol2 t2 s2 t1 s1 l =
     (let l1 = snd (read l) in
      if peek l1 = CHR ''='' then
        (let l2 = snd (read l1) in ret (Token t2 s2 (line l2) (column l2 - 2), l2))
      else ret (Token t1 s1 (line l1) (column l1 - 1), l1))"

text \<open>
  The last statement of \<^verbatim>\<open>next_token\<close>, reached by every branch that neither returns nor
  throws: \<^verbatim>\<open>error("Unknown token " + std::string(peek(),1), line, column)\<close>. The
  constructor called is \<^verbatim>\<open>std::string(count, ch)\<close>, so the text added is \<^verbatim>\<open>peek()\<close>
  copies of the character 1. A character of 128 or more is a negative \<^verbatim>\<open>char\<close>, which
  converts to a count beyond the longest string: there the constructor throws
  \<^verbatim>\<open>std::length_error\<close> before \<^verbatim>\<open>error\<close> is called.
\<close>

definition unknown_token :: "Lexer \<Rightarrow> (Token \<times> Lexer) result" where
  "unknown_token l =
     (if (of_char (peek l) :: nat) < 128 then
        Lexer_error (''Unknown token '' @ replicate (of_char (peek l)) (CHR 0x01))
          (line l) (column l)
      else Some (Inl LengthError))"

definition next_token :: "Lexer \<Rightarrow> (Token \<times> Lexer) result" where
  "next_token l0 =
     (case skip l0 of
        None \<Rightarrow> None
      | Some l \<Rightarrow>
         if peek l = EOF then
           (let l1 = snd (read l) in ret (Token EOS [] (line l1) (column l1 - 1), l1))
         else if peek l = CHR '','' then symbol COMMA '','' l
         else if peek l = CHR ''('' then symbol LPAREN ''('' l
         else if peek l = CHR '')'' then symbol RPAREN '')'' l
         else if peek l = CHR '':'' then symbol COLON '':'' l
         else if peek l = CHR ''+'' then symbol PLUS ''+'' l
         else if peek l = CHR ''-'' then symbol MINUS ''-'' l
         else if peek l = CHR ''*'' then symbol MULTIPLY ''*'' l
         else if peek l = CHR ''/'' then symbol DIVIDE ''/'' l
         else if peek l = CHR ''%'' then symbol MODULO ''%'' l
         else if peek l = CHR ''.'' then symbol DOT ''.'' l
         else if peek l = CHR ''='' then symbol2 EQUAL ''=='' ASSIGN ''='' l
         else if peek l = CHR ''<'' then symbol2 LESS_EQUAL ''<='' LESS ''<'' l
         else if peek l = CHR ''>'' then symbol2 GREATER_EQUAL ''>='' GREATER ''>'' l
         else if peek l = CHR ''!'' then
           (let l1 = snd (read l) in
            if peek l1 = CHR ''='' then
              (let l2 = snd (read l1) in ret (Token NOT_EQUAL ''!='' (line l2) (column l2 - 2), l2))
            else Lexer_error ''! is invalid syntax'' (line l1) (column l1))
         else if peek l = CHR ''.'' then
           (let l1 = snd (read l) in
            if isspace (peek l1) then ret (Token DOT ''.'' (line l1) (column l1 - 1), l1)
            else if isdigit (peek l1) then
              Lexer_error ''Invalid Double - must lead with a numerical value'' (line l1) (column l1)
            else unknown_token l1)
         else if peek l = CHR 0x27 then
           (let l1 = snd (read l) in
            if peek l1 = CHR 0x27 then
              Lexer_error ([CHR 0x27, CHR 0x27] @ '' is an invalid char'') (line l1) (column l1)
            else
              (let (c, l2) = read l1; lx = [c] in
               if peek l2 = CHR 0x27 then
                 (let l3 = snd (read l2) in ret (Token CHAR_VAL lx (line l3) (column l3 - 3), l3))
               else if peek l2 \<noteq> CHR 0x27 then
                 Lexer_error (''Expecting '' @ [CHR 0x27]) (line l2) (column l2)
               else unknown_token l2))
         else if peek l = CHR 0x22 then
           (let l1 = snd (read l) in
            case string_loop [] l1 of
              None \<Rightarrow> None
            | Some (s, l2) \<Rightarrow>
               if peek l2 = CHR 0x0A then
                 (let l3 = snd (read l2) in Lexer_error (''Expecting '' @ [CHR 0x22]) (line l3) (column l3))
               else if peek l2 = CHR 0x22 then
                 (let l3 = snd (read l2)
                  in ret (Token STRING_VAL s (line l3) (column l3 - int (length s) - 2), l3))
               else unknown_token l2)
         else if isdigit (peek l) then
           (let (c, l1) = read l; (lx, l2) = int_digits [c] l1 in
            if peek l2 = CHR ''.'' then
              (let (d, l3) = read l2; (lx, l4) = frac_digits (lx @ [d]) l3 in
               if \<not> isdigit (peek l4) \<and> \<not> isspace (peek l4) then
                 Lexer_error ''Invalid double value'' (line l4) (column l4)
               else ret (Token DOUBLE_VAL lx (line l4) (column l4 - int (length lx)), l4))
            else if \<not> isalpha (peek l2) then
              ret (Token INT_VAL lx (line l2) (column l2 - int (length lx)), l2)
            else unknown_token l2)
         else if isalpha (peek l) then
           (let (c, l1) = read l; (lx, l2) = word_chars [c] l1
            in ret (Token (reserved lx) lx (line l2) (column l2 - int (length lx)), l2))
         else unknown_token l)"

section \<open>The syntax tree\<close>

text \<open>
  Modelled from the spec: \<^verbatim>\<open>ast.h\<close> is included by \<^verbatim>\<open>parser.h\<close> but is not among the
  sources. The node types are those of the spec's data model, with the fields
  \<^verbatim>\<open>parser.h\<close> and \<^verbatim>\<open>printer.h\<close> access, in the order given in the comments. A pointer
  field that a finished node may hold null is an \<open>option\<close>.

  \<^item> \<open>Expr negated first op rest\<close>
  \<^item> \<open>SimpleTerm rvalue\<close>, \<open>ComplexTerm expr\<close>
  \<^item> \<open>SimpleRValue value\<close>, \<open>NewRValue type_id\<close>, \<open>CallExpr function_id arg_list\<close>,
    \<open>IDRValue path\<close>, \<open>NegatedRValue expr\<close>
\<close>

datatype Expr = Expr bool Term "Token option" "Expr option"
  and Term = SimpleTerm "RValue option" | ComplexTerm Expr
  and RValue =
      SimpleRValue Token
    | NewRValue Token
    | CallExpr Token "Expr list"
    | IDRValue "Token list"
    | NegatedRValue Expr

text \<open>
  \<^item> \<open>VarDeclStmt id type expr\<close>
  \<^item> \<open>AssignStmt lvalue_list expr\<close>, \<open>CallExprStmt function_id arg_list\<close> (a
    \<^verbatim>\<open>CallExpr\<close> pushed on a statement list), \<open>ReturnStmt expr\<close>,
    \<open>IfStmt if_part else_ifs body_stmts\<close>, \<open>WhileStmt expr stmts\<close>,
    \<open>ForStmt var_id start end stmts\<close>
  \<^item> \<open>BasicIf expr stmts\<close>
  \<^item> \<open>FunParam id type\<close>
  \<^item> \<open>TypeDecl id vdecls\<close>, \<open>FunDecl return_type id params stmts\<close>
\<close>

datatype VarDeclStmt = VarDeclStmt Token "Token option" Expr

datatype Stmt =
    VarDecl VarDeclStmt
  | AssignStmt "Token list" Expr
  | CallExprStmt Token "Expr list"
  | ReturnStmt Expr
  | IfStmt BasicIf "BasicIf list" "Stmt list"
  | WhileStmt Expr "Stmt list"
  | ForStmt Token Expr Expr "Stmt list"
  and BasicIf = BasicIf Expr "Stmt list"

datatype FunParam = FunParam Token Token

datatype Decl =
    TypeDecl Token "VarDeclStmt list"
  | FunDecl Token Token "FunParam list" "Stmt list"

text \<open>\<open>Program\<close> is its one field, \<^verbatim>\<open>decls\<close>.\<close>

type_synonym Program = "Decl list"

section \<open>Parser (parser.h)\<close>

text \<open>
  The parser's state is its lexer and the current token. A function of the parser takes
  the state and returns the new one with what it wrote into the node it was given.

  The recursive-descent functions call each other, so each takes a bound \<open>n\<close> on the
  depth of the calls it may still make (and a loop, on its iterations): with \<open>n = 0\<close> the
  outcome is \<open>None\<close>. A call of the program returns \<open>v\<close> when some \<open>n\<close> gives
  \<open>Some (Inr v)\<close>, and never returns when every \<open>n\<close> gives \<open>None\<close>.
\<close>

text \<open>
  Modelled from the spec: what a pointer field of a node holds when \<^verbatim>\<open>parser.h\<close> writes
  through it, which the constructors of \<^verbatim>\<open>ast.h\<close> decide.
  \<^item> The optional fields of the spec's data model, \<^verbatim>\<open>op\<close> and \<^verbatim>\<open>rest\<close> of an \<open>Expr\<close> and
    \<^verbatim>\<open>type\<close> of a \<open>VarDeclStmt\<close>, are null in a new node: \<^verbatim>\<open>printer.h\<close> tests
    \<^verbatim>\<open>node.op\<close> and \<^verbatim>\<open>node.type\<close> before it uses them and uses \<^verbatim>\<open>node.rest\<close> only under
    the first test, a constructor of \<open>Expr\<close> cannot allocate another \<open>Expr\<close> for its own
    \<^verbatim>\<open>rest\<close>, and \<^verbatim>\<open>parser.h\<close> assigns none of the three.
  \<^item> Every other \<^verbatim>\<open>Expr*\<close> field that \<^verbatim>\<open>parser.h\<close> hands to \<^verbatim>\<open>expr\<close> (the \<^verbatim>\<open>expr\<close> of a
    statement, of a \<open>BasicIf\<close>, of a \<open>ComplexTerm\<close> and of a \<open>NegatedRValue\<close>, the \<^verbatim>\<open>start\<close>
    and \<^verbatim>\<open>end\<close> of a \<open>ForStmt\<close>) is a child the data model requires, and is taken to
    point to a new \<open>Expr\<close>, as the one \<open>args\<close> creates with \<^verbatim>\<open>new Expr()\<close> does.

  A function that writes through a pointer or a reference it is given takes, as a
  \<open>Pointer\<close>, whether that target is null.
\<close>

datatype Pointer = Null | Allocated

definition write_through :: "Pointer \<Rightarrow> unit result" where
  "write_through target = (case target of Null \<Rightarrow> Some (Inl NullDereference) | Allocated \<Rightarrow> ret ())"

record Parser =
  lexer :: Lexer
  curr_token :: Token

text \<open>The constructor. The current token before the first \<open>advance\<close> is the default
  token of \<^verbatim>\<open>token.h\<close>; \<open>parse\<close> replaces it before reading it.\<close>

definition Parser_new :: "Lexer \<Rightarrow> Parser" where
  "Parser_new program_lexer = \<lparr>lexer = program_lexer, curr_token = Token EOS [] 0 0\<rparr>"

definition advance :: "Parser \<Rightarrow> Parser result" where
  "advance p = bind (next_token (lexer p)) (\<lambda>(t, l). ret (p\<lparr>lexer := l, curr_token := t\<rparr>))"

definition Parser_error :: "string \<Rightarrow> Parser \<Rightarrow> 'a result" where
  "Parser_error err_msg p =
     (let s = err_msg @ ''found '' @ [CHR 0x27] @ lexeme (curr_token p) @ [CHR 0x27]
      in Some (Inl (MyPLException SYNTAX s (tok_line (curr_token p)) (tok_column (curr_token p)))))"

definition eat :: "TokenType \<Rightarrow> string \<Rightarrow> Parser \<Rightarrow> Parser result" where
  "eat t err_msg p = (if type (curr_token p) = t then advance p else Parser_error err_msg p)"

definition is_operator :: "TokenType \<Rightarrow> bool" where
  "is_operator t =
     (t = PLUS \<or> t = MINUS \<or> t = DIVIDE \<or> t = MULTIPLY \<or> t = MODULO \<or> t = AND \<or> t = OR
      \<or> t = EQUAL \<or> t = LESS \<or> t = GREATER \<or> t = LESS_EQUAL \<or> t = GREATER_EQUAL
      \<or> t = NOT_EQUAL)"

subsection \<open>Expressions\<close>

text \<open>\<^verbatim>\<open>Parser::dtype\<close> assigns the current token to the \<^verbatim>\<open>Token&\<close> it is given, \<open>dType\<close>,
  and \<^verbatim>\<open>Parser::op\<close> to the token its \<^verbatim>\<open>Token*&\<close> points to (\<^verbatim>\<open>*op = curr_token\<close>).\<close>

definition dtype :: "Pointer \<Rightarrow> Parser \<Rightarrow> (Token \<times> Parser) result" where
  "dtype dType p =
     (if type (curr_token p) = INT_TYPE \<or> type (curr_token p) = DOUBLE_TYPE
         \<or> type (curr_token p) = BOOL_TYPE \<or> type (curr_token p) = CHAR_TYPE
         \<or> type (curr_token p) = STRING_TYPE \<or> type (curr_token p) = ID
      then bind (write_through dType) (\<lambda>_.
           bind (advance p) (\<lambda>p1. ret (curr_token p, p1)))
      else Parser_error ''invalid declared type '' p)"

definition op :: "Pointer \<Rightarrow> Parser \<Rightarrow> (Token \<times> Parser) result" where
  "op oper p =
     (if is_operator (type (curr_token p))
      then bind (write_through oper) (\<lambda>_.
           bind (advance p) (\<lambda>p1. ret (curr_token p, p1)))
      else Parser_error ''expecting operator '' p)"

definition pval :: "Parser \<Rightarrow> (Token \<times> Parser) result" where
  "pval p =
     (if type (curr_token p) = INT_VAL \<or> type (curr_token p) = DOUBLE_VAL
         \<or> type (curr_token p) = BOOL_VAL \<or> type (curr_token p) = CHAR_VAL
         \<or> type (curr_token p) = STRING_VAL
      then bind (advance p) (\<lambda>p1. ret (curr_token p, p1))
      else Parser_error ''expecting value '' p)"

text \<open>\<^verbatim>\<open>Parser::idrval\<close>: the loop appends to the path of the node it is given, \<open>path\<close>.\<close>

fun idrval :: "nat \<Rightarrow> Parser \<Rightarrow> Token list \<Rightarrow> (Token list \<times> Parser) result" where
  "idrval 0 p path = None"
| "idrval (Suc n) p path =
     (if type (curr_token p) = DOT then
        bind (advance p) (\<lambda>p1.
        bind (eat ID ''expecting id '' p1) (\<lambda>p2.
        idrval n p2 (path @ [curr_token p1])))
      else ret (path, p))"

text \<open>
  \<^verbatim>\<open>Parser::expr\<close>, \<^verbatim>\<open>Parser::rvalue\<close>, \<^verbatim>\<open>Parser::call_expr\<close> and \<^verbatim>\<open>Parser::args\<close>.
  \<open>expr\<close> returns the node it filled, \<open>rvalue\<close> the pointer it assigned (\<open>None\<close> when no
  branch assigns one), \<open>call_expr\<close> and \<open>args\<close> the argument list. \<open>args_while\<close> is the
  loop \<^verbatim>\<open>while(curr_token.type() == COMMA)\<close> of \<open>args\<close>.

  \<open>expr\<close> takes \<open>exp_ptr\<close>, the \<^verbatim>\<open>Expr*\<close> it is given, and writes \<^verbatim>\<open>exp->negated\<close> and
  \<^verbatim>\<open>exp->first\<close> through it. After an operator it calls \<^verbatim>\<open>op(exp->op)\<close> and
  \<^verbatim>\<open>expr(exp->rest)\<close> on the two fields of that node that are null: \<^verbatim>\<open>op\<close> writes
  \<^verbatim>\<open>*op = curr_token\<close> through the first, so that the call of \<^verbatim>\<open>expr\<close> on the second is
  never reached.
\<close>

function expr :: "nat \<Rightarrow> Pointer \<Rightarrow> Parser \<Rightarrow> (Expr \<times> Parser) result"
  and rvalue :: "nat \<Rightarrow> Parser \<Rightarrow> (RValue option \<times> Parser) result"
  and call_expr :: "nat \<Rightarrow> Parser \<Rightarrow> Expr list \<Rightarrow> (Expr list \<times> Parser) result"
  and args :: "nat \<Rightarrow> Parser \<Rightarrow> Expr list \<Rightarrow> (Expr list \<times> Parser) result"
  and args_while :: "nat \<Rightarrow> Parser \<Rightarrow> Expr list \<Rightarrow> (Expr list \<times> Parser) result"
where
  "expr 0 exp_ptr p = None"
| "expr (Suc n) exp_ptr p =
     bind
       (if type (curr_token p) = NOT then
          bind (write_through exp_ptr) (\<lambda>_.
          bind (advance p) (\<lambda>p1.
          bind (expr n Allocated p1) (\<lambda>(e, p2).
          bind (write_through exp_ptr) (\<lambda>_.
          ret ((True, ComplexTerm e), p2)))))
        else if type (curr_token p) = LPAREN then
          bind (advance p) (\<lambda>p1.
          bind (expr n Allocated p1) (\<lambda>(e, p2).
          bind (write_through exp_ptr) (\<lambda>_.
          bind (eat RPAREN ''expecting ')' '' p2) (\<lambda>p3.
          ret ((False, ComplexTerm e), p3)))))
        else
          bind (rvalue n p) (\<lambda>(rv, p1).
          bind (write_through exp_ptr) (\<lambda>_.
          ret ((False, SimpleTerm rv), p1))))
       (\<lambda>((negated, first), p1).
          if is_operator (type (curr_token p1)) then
            bind (op Null p1) (\<lambda>(oper, p2).
            bind (expr n Null p2) (\<lambda>(rest, p3).
            ret (Expr negated first (Some oper) (Some rest), p3)))
          else ret (Expr negated first None None, p1))"
| "rvalue 0 p = None"
| "rvalue (Suc n) p =
     (if type (curr_token p) = INT_VAL \<or> type (curr_token p) = DOUBLE_VAL
         \<or> type (curr_token p) = BOOL_VAL \<or> type (curr_token p) = CHAR_VAL
         \<or> type (curr_token p) = STRING_VAL then
        bind (pval p) (\<lambda>(v, p1). ret (Some (SimpleRValue v), p1))
      else if type (curr_token p) = NIL then
        bind (advance p) (\<lambda>p1. ret (Some (SimpleRValue (curr_token p)), p1))
      else if type (curr_token p) = NEW then
        bind (advance p) (\<lambda>p1.
        bind (eat ID ''expecting type id '' p1) (\<lambda>p2.
        ret (Some (NewRValue (curr_token p1)), p2)))
      else if type (curr_token p) = ID then
        (let ident = curr_token p in
         bind (advance p) (\<lambda>p1.
         if type (curr_token p1) = LPAREN then
           bind (call_expr n p1 []) (\<lambda>(arg_list, p2).
           ret (Some (CallExpr ident arg_list), p2))
         else
           bind (idrval n p1 []) (\<lambda>(path, p2).
           ret (Some (IDRValue path), p2))))
      else if type (curr_token p) = NEG then
        bind (advance p) (\<lambda>p1.
        bind (expr n Allocated p1) (\<lambda>(e, p2).
        ret (Some (NegatedRValue e), p2)))
      else ret (None, p))"
| "call_expr 0 p arg_list = None"
| "call_expr (Suc n) p arg_list =
     bind (eat LPAREN ''expecting '(' '' p) (\<lambda>p1.
     bind (args n p1 arg_list) (\<lambda>(arg_list1, p2).
     bind (eat RPAREN ''expecting ')' '' p2) (\<lambda>p3.
     ret (arg_list1, p3))))"
| "args 0 p arg_list = None"
| "args (Suc n) p arg_list =
     (if type (curr_token p) = NOT \<or> type (curr_token p) = LPAREN
         \<or> type (curr_token p) = NIL \<or> type (curr_token p) = NEW
         \<or> type (curr_token p) = NEG \<or> type (curr_token p) = INT_VAL
         \<or> type (curr_token p) = DOUBLE_VAL \<or> type (curr_token p) = BOOL_VAL
         \<or> type (curr_token p) = CHAR_VAL \<or> type (curr_token p) = STRING_VAL
         \<or> type (curr_token p) = ID then
        bind (expr n Allocated p) (\<lambda>(e, p1).
        args_while n p1 (arg_list @ [e]))
      else ret (arg_list, p))"
| "args_while 0 p arg_list = None"
| "args_while (Suc n) p arg_list =
     (if type (curr_token p) = COMMA then
        bind (advance p) (\<lambda>p1.
        bind (args n p1 arg_list) (\<lambda>(arg_list1, p2).
        args_while n p2 arg_list1))
      else ret (arg_list, p))"
  by pat_completeness auto
termination
  by (relation "measure (\<lambda>x. case x of
        Inl (Inl (n, _)) \<Rightarrow> n | Inl (Inr (n, _)) \<Rightarrow> n
      | Inr (Inl (n, _)) \<Rightarrow> n | Inr (Inr (Inl (n, _))) \<Rightarrow> n | Inr (Inr (Inr (n, _))) \<Rightarrow> n)")
     simp_all

subsection \<open>Statements\<close>

text \<open>\<^verbatim>\<open>Parser::vdecl_stmt\<close>: the identifier is stored before \<open>eat\<close> tests it. After a
  colon the call is \<^verbatim>\<open>dtype(*vDecl->type)\<close>, on the \<^verbatim>\<open>type\<close> of the new node, which is
  null.\<close>

definition vdecl_stmt :: "nat \<Rightarrow> Parser \<Rightarrow> (VarDeclStmt \<times> Parser) result" where
  "vdecl_stmt n p =
     bind (advance p) (\<lambda>p1.
     bind (eat ID ''expecting id '' p1) (\<lambda>p2.
     bind (if type (curr_token p2) = COLON
           then bind (advance p2) (\<lambda>p3. bind (dtype Null p3) (\<lambda>(t, p4). ret (Some t, p4)))
           else ret (None, p2)) (\<lambda>(ty, p5).
     bind (eat ASSIGN ''expecting '=' '' p5) (\<lambda>p6.
     bind (expr n Allocated p6) (\<lambda>(e, p7).
     ret (VarDeclStmt (curr_token p1) ty e, p7))))))"

text \<open>\<^verbatim>\<open>Parser::lvalue\<close>: the loop appends to the list it is given.\<close>

fun lvalue :: "nat \<Rightarrow> Parser \<Rightarrow> Token list \<Rightarrow> (Token list \<times> Parser) result" where
  "lvalue 0 p lvalue_list = None"
| "lvalue (Suc n) p lvalue_list =
     (if type (curr_token p) = DOT then
        bind (advance p) (\<lambda>p1.
        bind (eat ID ''expecting id '' p1) (\<lambda>p2.
        lvalue n p2 (lvalue_list @ [curr_token p1])))
      else ret (lvalue_list, p))"

text \<open>\<^verbatim>\<open>Parser::assign_stmt\<close>: the node it is given holds the list \<open>lvalue_list\<close>.\<close>

definition assign_stmt :: "nat \<Rightarrow> Parser \<Rightarrow> Token list \<Rightarrow> (Stmt \<times> Parser) result" where
  "assign_stmt n p lvalue_list =
     bind (lvalue n p lvalue_list) (\<lambda>(lvalue_list1, p1).
     bind (eat ASSIGN ''expecting '=' '' p1) (\<lambda>p2.
     bind (expr n Allocated p2) (\<lambda>(e, p3).
     ret (AssignStmt lvalue_list1 e, p3))))"

definition exit_stmt :: "nat \<Rightarrow> Parser \<Rightarrow> (Stmt \<times> Parser) result" where
  "exit_stmt n p =
     bind (advance p) (\<lambda>p1.
     bind (expr n Allocated p1) (\<lambda>(e, p2).
     ret (ReturnStmt e, p2)))"

text \<open>
  \<^verbatim>\<open>Parser::stmts\<close>, \<^verbatim>\<open>Parser::stmt\<close>, \<^verbatim>\<open>Parser::cond_stmt\<close>, \<^verbatim>\<open>Parser::condt\<close>,
  \<^verbatim>\<open>Parser::while_stmt\<close> and \<^verbatim>\<open>Parser::for_stmt\<close>. \<open>stmts\<close> and \<open>stmt\<close> return the
  statement list they were given, with what they pushed on it; \<open>condt\<close> returns the
  \<^verbatim>\<open>else_ifs\<close> and \<^verbatim>\<open>body_stmts\<close> of the \<^verbatim>\<open>IfStmt\<close> it was given.
\<close>

function stmts :: "nat \<Rightarrow> Parser \<Rightarrow> Stmt list \<Rightarrow> (Stmt list \<times> Parser) result"
  and stmt :: "nat \<Rightarrow> Parser \<Rightarrow> Stmt list \<Rightarrow> (Stmt list \<times> Parser) result"
  and cond_stmt :: "nat \<Rightarrow> Parser \<Rightarrow> (Stmt \<times> Parser) result"
  and condt :: "nat \<Rightarrow> Parser \<Rightarrow> BasicIf list \<times> Stmt list
                  \<Rightarrow> ((BasicIf list \<times> Stmt list) \<times> Parser) result"
  and while_stmt :: "nat \<Rightarrow> Parser \<Rightarrow> (Stmt \<times> Parser) result"
  and for_stmt :: "nat \<Rightarrow> Parser \<Rightarrow> (Stmt \<times> Parser) result"
where
  "stmts 0 p stms = None"
| "stmts (Suc n) p stms =
     (if type (curr_token p) = VAR \<or> type (curr_token p) = ID
         \<or> type (curr_token p) = IF \<or> type (curr_token p) = WHILE
         \<or> type (curr_token p) = FOR \<or> type (curr_token p) = RETURN then
        bind (stmt n p stms) (\<lambda>(stms1, p1).
        stmts n p1 stms1)
      else ret (stms, p))"
| "stmt 0 p stms = None"
| "stmt (Suc n) p stms =
     (if type (curr_token p) = VAR then
        bind (vdecl_stmt n p) (\<lambda>(vDecl, p1). ret (stms @ [VarDecl vDecl], p1))
      else if type (curr_token p) = ID then
        (let ident = curr_token p in
         bind (advance p) (\<lambda>p1.
         if type (curr_token p1) = LPAREN then
           bind (call_expr n p1 []) (\<lambda>(arg_list, p2).
           ret (stms @ [CallExprStmt ident arg_list], p2))
         else if type (curr_token p1) = ASSIGN \<or> type (curr_token p1) = DOT then
           bind (assign_stmt n p1 [ident]) (\<lambda>(aStmt, p2).
           ret (stms @ [aStmt], p2))
         else ret (stms, p1)))
      else if type (curr_token p) = IF then
        bind (cond_stmt n p) (\<lambda>(iStmt, p1). ret (stms @ [iStmt], p1))
      else if type (curr_token p) = WHILE then
        bind (while_stmt n p) (\<lambda>(wStmt, p1). ret (stms @ [wStmt], p1))
      else if type (curr_token p) = FOR then
        bind (for_stmt n p) (\<lambda>(fStmt, p1). ret (stms @ [fStmt], p1))
      else if type (curr_token p) = RETURN then
        bind (exit_stmt n p) (\<lambda>(rStmt, p1). ret (stms @ [rStmt], p1))
      else ret (stms, p))"
| "cond_stmt 0 p = None"
| "cond_stmt (Suc n) p =
     bind (advance p) (\<lambda>p1.
     bind (expr n Allocated p1) (\<lambda>(e, p2).
     bind (eat THEN ''expecting 'then' keyword '' p2) (\<lambda>p3.
     bind (stmts n p3 []) (\<lambda>(if_stmts, p4).
     bind (condt n p4 ([], [])) (\<lambda>((else_ifs, body_stmts), p5).
     bind (eat END ''expecting 'end' keyword '' p5) (\<lambda>p6.
     ret (IfStmt (BasicIf e if_stmts) else_ifs body_stmts, p6)))))))"
| "condt 0 p ei = None"
| "condt (Suc n) p ei =
     (if type (curr_token p) = ELSEIF then
        bind (advance p) (\<lambda>p1.
        bind (expr n Allocated p1) (\<lambda>(e, p2).
        bind (eat THEN ''expecting 'then' keyword '' p2) (\<lambda>p3.
        bind (stmts n p3 []) (\<lambda>(elseif_stmts, p4).
        condt n p4 (fst ei @ [BasicIf e elseif_stmts], snd ei)))))
      else if type (curr_token p) = ELSE then
        bind (advance p) (\<lambda>p1.
        bind (stmts n p1 (snd ei)) (\<lambda>(body_stmts, p2).
        ret ((fst ei, body_stmts), p2)))
      else ret (ei, p))"
| "while_stmt 0 p = None"
| "while_stmt (Suc n) p =
     bind (advance p) (\<lambda>p1.
     bind (expr n Allocated p1) (\<lambda>(e, p2).
     bind (eat DO ''expecting 'do' keyword '' p2) (\<lambda>p3.
     bind (stmts n p3 []) (\<lambda>(body, p4).
     bind (eat END ''expecting 'end' keyword '' p4) (\<lambda>p5.
     ret (WhileStmt e body, p5))))))"
| "for_stmt 0 p = None"
| "for_stmt (Suc n) p =
     bind (advance p) (\<lambda>p1.
     bind (eat ID ''expecting id '' p1) (\<lambda>p2.
     bind (eat ASSIGN ''expecting '=' '' p2) (\<lambda>p3.
     bind (expr n Allocated p3) (\<lambda>(start, p4).
     bind (eat TO ''expecting 'to' keyword '' p4) (\<lambda>p5.
     bind (expr n Allocated p5) (\<lambda>(end_expr, p6).
     bind (eat DO ''expecting 'do' keyword '' p6) (\<lambda>p7.
     bind (stmts n p7 []) (\<lambda>(body, p8).
     bind (eat END ''expecting 'end' keyword'' p8) (\<lambda>p9.
     ret (ForStmt (curr_token p1) start end_expr body, p9))))))))))"
  by pat_completeness auto
termination
  by (relation "measure (\<lambda>x. case x of
        Inl (Inl (n, _)) \<Rightarrow> n | Inl (Inr (Inl (n, _))) \<Rightarrow> n | Inl (Inr (Inr (n, _))) \<Rightarrow> n
      | Inr (Inl (n, _)) \<Rightarrow> n | Inr (Inr (Inl (n, _))) \<Rightarrow> n | Inr (Inr (Inr (n, _))) \<Rightarrow> n)")
     simp_all

subsection \<open>Declarations\<close>

text \<open>\<^verbatim>\<open>Parser::vdecls\<close>: \<^verbatim>\<open>while(curr_token.type() == VAR)\<close>.\<close>

fun vdecls :: "nat \<Rightarrow> Parser \<Rightarrow> VarDeclStmt list \<Rightarrow> (VarDeclStmt list \<times> Parser) result" where
  "vdecls 0 p vdecs = None"
| "vdecls (Suc n) p vdecs =
     (if type (curr_token p) = VAR then
        bind (vdecl_stmt n p) (\<lambda>(vDecl, p1).
        vdecls n p1 (vdecs @ [vDecl]))
      else ret (vdecs, p))"

definition tdecl :: "nat \<Rightarrow> Parser \<Rightarrow> (Decl \<times> Parser) result" where
  "tdecl n p =
     bind (advance p) (\<lambda>p1.
     bind (eat ID ''expecting variable ID '' p1) (\<lambda>p2.
     bind (vdecls n p2 []) (\<lambda>(vdecs, p3).
     bind (eat END ''expecting 'END' keyword '' p3) (\<lambda>p4.
     ret (TypeDecl (curr_token p1) vdecs, p4)))))"

text \<open>
  \<^verbatim>\<open>Parser::params\<close>. The local \<^verbatim>\<open>FunDecl::FunParam p\<close> is \<open>fp\<close>: the function fills it
  and never pushes it on \<^verbatim>\<open>ps\<close>, the list it was given. \<open>params_while\<close> is its loop
  \<^verbatim>\<open>while(curr_token.type() == COMMA)\<close>.
\<close>

fun params :: "nat \<Rightarrow> Parser \<Rightarrow> FunParam list \<Rightarrow> (FunParam list \<times> Parser) result"
  and params_while :: "nat \<Rightarrow> Parser \<Rightarrow> FunParam list \<Rightarrow> (FunParam list \<times> Parser) result"
where
  "params 0 p ps = None"
| "params (Suc n) p ps =
     (if type (curr_token p) = ID then
        bind (advance p) (\<lambda>p1.
        bind (eat COLON ''expecting ':' '' p1) (\<lambda>p2.
        bind (dtype Allocated p2) (\<lambda>(t, p3).
        (let fp = FunParam (curr_token p) t
         in params_while n p3 ps))))
      else if type (curr_token p) \<noteq> RPAREN then Parser_error ''invalid parameter '' p
      else ret (ps, p))"
| "params_while 0 p ps = None"
| "params_while (Suc n) p ps =
     (if type (curr_token p) = COMMA then
        bind (advance p) (\<lambda>p1.
        bind (params n p1 ps) (\<lambda>(ps1, p2).
        params_while n p2 ps1))
      else ret (ps, p))"

definition fdecl :: "nat \<Rightarrow> Parser \<Rightarrow> (Decl \<times> Parser) result" where
  "fdecl n p =
     bind (advance p) (\<lambda>p1.
     bind (if type (curr_token p1) = NIL
           then bind (advance p1) (\<lambda>p2. ret (curr_token p1, p2))
           else dtype Allocated p1) (\<lambda>(return_type, p3).
     bind (eat ID ''expecting variable ID '' p3) (\<lambda>p4.
     bind (eat LPAREN ''expecting '(' '' p4) (\<lambda>p5.
     bind (params n p5 []) (\<lambda>(ps, p6).
     bind (eat RPAREN ''expecting ')' '' p6) (\<lambda>p7.
     bind (stmts n p7 []) (\<lambda>(stms, p8).
     bind (eat END ''expecting 'END' keyword '' p8) (\<lambda>p9.
     ret (FunDecl return_type (curr_token p3) ps stms, p9)))))))))"

subsection \<open>\<^verbatim>\<open>Parser::parse\<close>\<close>

text \<open>
  \<open>parse_while\<close> is the loop \<^verbatim>\<open>while (curr_token.type() != EOS)\<close>: a type declaration, a
  function declaration, or, for any other token, nothing at all before the next test.
\<close>

fun parse_while :: "nat \<Rightarrow> Parser \<Rightarrow> Program \<Rightarrow> (Program \<times> Parser) result" where
  "parse_while 0 p prog = None"
| "parse_while (Suc n) p prog =
     (if type (curr_token p) \<noteq> EOS then
        (if type (curr_token p) = TYPE_KW then
           bind (tdecl n p) (\<lambda>(tDec, p1). parse_while n p1 (prog @ [tDec]))
         else if type (curr_token p) = FUN then
           bind (fdecl n p) (\<lambda>(fDec, p1). parse_while n p1 (prog @ [fDec]))
         else parse_while n p prog)
      else ret (prog, p))"

definition parse :: "nat \<Rightarrow> Parser \<Rightarrow> Program \<Rightarrow> (Program \<times> Parser) result" where
  "parse n p prog =
     bind (advance p) (\<lambda>p1.
     bind (parse_while n p1 prog) (\<lambda>(prog1, p2).
     bind (eat EOS ''expecting end-of-file '' p2) (\<lambda>p3.
     ret (prog1, p3))))"

section \<open>Running the lexer and the parser on a text\<close>

text \<open>
  The caller's loop over the lexer: \<open>next_token\<close> is called until it returns an \<open>EOS\<close>
  token; the tokens are collected in order, the \<open>EOS\<close> token last.
\<close>

fun tokenize :: "nat \<Rightarrow> Lexer \<Rightarrow> Token list result" where
  "tokenize 0 l = None"
| "tokenize (Suc n) l =
     bind (next_token l) (\<lambda>(t, l1).
     if type t = EOS then ret [t]
     else bind (tokenize n l1) (\<lambda>ts. ret (t # ts)))"

text \<open>The expression at the head of a text: a new parser on a new lexer, one \<open>advance\<close>
  to load the first token, then \<open>expr\<close> on a new \<open>Expr\<close> (as \<open>args\<close> calls it:
  \<^verbatim>\<open>Expr* e = new Expr(); expr(e);\<close>).\<close>

definition expr_of_text :: "nat \<Rightarrow> string \<Rightarrow> Expr result" where
  "expr_of_text n s =
     bind (advance (Parser_new (Lexer_new s))) (\<lambda>p.
     bind (expr n Allocated p) (\<lambda>(e, p1). ret e))"

text \<open>The program of a text: \<open>parse\<close> of a new parser on a new lexer, into an empty
  \<open>Program\<close>.\<close>

definition program_of_text :: "nat \<Rightarrow> string \<Rightarrow> Program result" where
  "program_of_text n s =
     bind (parse n (Parser_new (Lexer_new s)) []) (\<lambda>(prog, p). ret prog)"

text \<open>
  What the spec's data model asks of a statement: the \<^verbatim>\<open>lvalue_list\<close> of every
  \<open>AssignStmt\<close> in it, at any depth, has at least one element.
\<close>

fun lvalues_nonempty :: "Stmt \<Rightarrow> bool"
  and lvalues_nonempty_if :: "BasicIf \<Rightarrow> bool"
where
  "lvalues_nonempty (VarDecl v) = True"
| "lvalues_nonempty (AssignStmt lvalue_list e) = (1 \<le> length lvalue_list)"
| "lvalues_nonempty (CallExprStmt t arg_list) = True"
| "lvalues_nonempty (ReturnStmt e) = True"
| "lvalues_nonempty (IfStmt if_part else_ifs body_stmts) =
     (lvalues_nonempty_if if_part \<and> list_all lvalues_nonempty_if else_ifs
      \<and> list_all lvalues_nonempty body_stmts)"
| "lvalues_nonempty (WhileStmt e stms) = list_all lvalues_nonempty stms"
| "lvalues_nonempty (ForStmt t e1 e2 stms) = list_all lvalues_nonempty stms"
| "lvalues_nonempty_if (BasicIf e stms) = list_all lvalues_nonempty stms"

fun decl_lvalues_nonempty :: "Decl \<Rightarrow> bool" where
  "decl_lvalues_nonempty (TypeDecl ident vdecs) = True"
| "decl_lvalues_nonempty (FunDecl return_type ident ps stms) = list_all lvalues_nonempty stms"

text \<open>The \<^verbatim>\<open>params\<close> of a declaration (a type declaration has none).\<close>

fun decl_params :: "Decl \<Rightarrow> FunParam list" where
  "decl_params (TypeDecl ident vdecs) = []"
| "decl_params (FunDecl return_type ident ps stms) = ps"

declare comment_line.simps [code] comment_lines.simps [code] skip.simps [code]
  string_loop.simps [code]

section \<open>The loops that never end\<close>

text \<open>\<open>comment_line\<close> returns only when a newline is still to come.\<close>

lemma comment_line_needs_newline:
  assumes "comment_line l = Some l'"
  shows "CHR 0x0A \<in> set (input_stream l)"
proof (rule comment_line.raw_induct
    [where P = "\<lambda>l l'. CHR 0x0A \<in> set (input_stream l)", OF _ assms])
  fix f l l'
  assume IH: "\<And>x y. f x = Some y \<Longrightarrow> CHR 0x0A \<in> set (input_stream x)"
    and step: "(if peek l \<noteq> CHR 0x0A then f (snd (read l)) else Some l) = Some l'"
  show "CHR 0x0A \<in> set (input_stream l)"
  proof (cases "input_stream l")
    case Nil
    with step have "f (snd (read l)) = Some l'"
      by (simp add: peek_def EOF_def)
    from IH [OF this] Nil show ?thesis
      by (simp add: read_def)
  next
    case (Cons c cs)
    show ?thesis
    proof (cases "c = CHR 0x0A")
      case True
      with Cons show ?thesis by simp
    next
      case False
      with step Cons have "f (snd (read l)) = Some l'"
        by (simp add: peek_def)
      from IH [OF this] Cons show ?thesis
        by (simp add: read_def)
    qed
  qed
qed

lemma comment_line_diverges:
  "CHR 0x0A \<notin> set (input_stream l) \<Longrightarrow> comment_line l = None"
  using comment_line_needs_newline by (cases "comment_line l") auto

text \<open>The loop of \<open>parse\<close> makes no progress on a token that is neither \<open>EOS\<close>, \<open>TYPE\<close>
  nor \<open>FUN\<close>: whatever the bound, it has not returned.\<close>

lemma parse_while_stuck:
  "type (curr_token p) \<noteq> EOS \<Longrightarrow> type (curr_token p) \<noteq> TYPE_KW
   \<Longrightarrow> type (curr_token p) \<noteq> FUN \<Longrightarrow> parse_while n p prog = None"
  by (induction n) simp_all

lemma parse_stuck:
  assumes "advance p = Some (Inr p1)"
    and "type (curr_token p1) \<noteq> EOS"
    and "type (curr_token p1) \<noteq> TYPE_KW"
    and "type (curr_token p1) \<noteq> FUN"
  shows "parse n p prog = None"
  using assms by (simp add: parse_def bind_def parse_while_stuck)

text \<open>A comment that no newline ends: \<open>next_token\<close> never returns.\<close>

lemma next_token_unterminated_comment:
  assumes "CHR 0x0A \<notin> set s"
  shows "next_token (Lexer_new (CHR ''#'' # s)) = None"
proof -
  have "comment_line (snd (read (Lexer_new (CHR ''#'' # s)))) = None"
    using assms by (intro comment_line_diverges) (simp add: read_def Lexer_new_def)
  then have "comment_lines (snd (read (Lexer_new (CHR ''#'' # s)))) = None"
    by (subst comment_lines.simps) simp
  then have "skip (Lexer_new (CHR ''#'' # s)) = None"
    by (subst skip.simps) (simp add: peek_def Lexer_new_def)
  then show ?thesis
    by (simp add: next_token_def)
qed

section \<open>What every parsed program looks like\<close>

lemma bind_returns:
  assumes "bind m f = Some (Inr v)"
  obtains x where "m = Some (Inr x)" and "f x = Some (Inr v)"
  using assms by (auto simp: bind_def split: option.splits sum.splits)

lemma ret_returns: "ret x = Some (Inr v) \<longleftrightarrow> x = v"
  by (simp add: ret_def)

lemma Parser_error_returns: "Parser_error msg p \<noteq> Some (Inr v)"
  by (simp add: Parser_error_def)

text \<open>\<open>params\<close> returns the list it was given: nothing is ever pushed on it.\<close>

lemma params_keeps_ps:
  "(params n p ps = Some (Inr (ps', p')) \<longrightarrow> ps' = ps)
   \<and> (params_while n p ps = Some (Inr (ps', p')) \<longrightarrow> ps' = ps)"
proof (induction n arbitrary: p ps ps' p')
  case 0
  show ?case by simp
next
  case (Suc n)
  have IH1: "\<And>p ps ps' p'. params n p ps = Some (Inr (ps', p')) \<Longrightarrow> ps' = ps"
    and IH2: "\<And>p ps ps' p'. params_while n p ps = Some (Inr (ps', p')) \<Longrightarrow> ps' = ps"
    using Suc.IH by blast+
  have a: "params (Suc n) p ps = Some (Inr (ps', p')) \<longrightarrow> ps' = ps"
    by (auto simp: ret_returns Parser_error_returns elim!: bind_returns dest: IH2
             split: if_splits)
  have b: "params_while (Suc n) p ps = Some (Inr (ps', p')) \<longrightarrow> ps' = ps"
    by (auto simp: ret_returns elim!: bind_returns dest!: IH1 IH2 split: if_splits)
  from a b show ?case by blast
qed

lemma params_returns_ps: "params n p ps = Some (Inr (ps', p')) \<Longrightarrow> ps' = ps"
  using params_keeps_ps by blast

text \<open>\<open>lvalue\<close> only appends, and \<open>stmt\<close> calls \<open>assign_stmt\<close> with a list of one
  element: the statements the parser builds have no empty lvalue list.\<close>

lemma lvalue_extends:
  "lvalue n p xs = Some (Inr (ys, p')) \<Longrightarrow> length xs \<le> length ys"
proof (induction n arbitrary: p xs)
  case 0
  then show ?case by simp
next
  case (Suc n)
  show ?case
  proof (cases "type (curr_token p) = DOT")
    case False
    with Suc.prems show ?thesis by (simp add: ret_def)
  next
    case True
    with Suc.prems obtain p1 p2 :: Parser
      where "lvalue n p2 (xs @ [curr_token p1]) = Some (Inr (ys, p'))"
      by (auto elim!: bind_returns)
    from Suc.IH [OF this] show ?thesis by simp
  qed
qed

lemma assign_stmt_nonempty:
  "assign_stmt n p [ident] = Some (Inr (s, p')) \<Longrightarrow> lvalues_nonempty s"
  by (auto simp: assign_stmt_def ret_returns elim!: bind_returns dest!: lvalue_extends)

lemma stmts_lvalues_nonempty:
  "(stmts n p stms = Some (Inr (stms', p')) \<longrightarrow> list_all lvalues_nonempty stms
      \<longrightarrow> list_all lvalues_nonempty stms')
   \<and> (stmt n p stms = Some (Inr (stms', p')) \<longrightarrow> list_all lvalues_nonempty stms
      \<longrightarrow> list_all lvalues_nonempty stms')
   \<and> (cond_stmt n p = Some (Inr (s, p')) \<longrightarrow> lvalues_nonempty s)
   \<and> (condt n p ei = Some (Inr (ei', p')) \<longrightarrow> list_all lvalues_nonempty_if (fst ei)
      \<longrightarrow> list_all lvalues_nonempty (snd ei)
      \<longrightarrow> list_all lvalues_nonempty_if (fst ei') \<and> list_all lvalues_nonempty (snd ei'))
   \<and> (while_stmt n p = Some (Inr (s, p')) \<longrightarrow> lvalues_nonempty s)
   \<and> (for_stmt n p = Some (Inr (s, p')) \<longrightarrow> lvalues_nonempty s)"
proof (induction n arbitrary: p stms stms' p' s ei ei')
  case 0
  show ?case by simp
next
  case (Suc n)
  have stmts_IH: "\<And>p stms stms' p'. stmts n p stms = Some (Inr (stms', p'))
      \<Longrightarrow> list_all lvalues_nonempty stms \<Longrightarrow> list_all lvalues_nonempty stms'"
    and stmt_IH: "\<And>p stms stms' p'. stmt n p stms = Some (Inr (stms', p'))
      \<Longrightarrow> list_all lvalues_nonempty stms \<Longrightarrow> list_all lvalues_nonempty stms'"
    and cond_IH: "\<And>p s p'. cond_stmt n p = Some (Inr (s, p')) \<Longrightarrow> lvalues_nonempty s"
    and condt_IH: "\<And>p ei ei' p'. condt n p ei = Some (Inr (ei', p'))
      \<Longrightarrow> list_all lvalues_nonempty_if (fst ei) \<Longrightarrow> list_all lvalues_nonempty (snd ei)
      \<Longrightarrow> list_all lvalues_nonempty_if (fst ei') \<and> list_all lvalues_nonempty (snd ei')"
    and while_IH: "\<And>p s p'. while_stmt n p = Some (Inr (s, p')) \<Longrightarrow> lvalues_nonempty s"
    and for_IH: "\<And>p s p'. for_stmt n p = Some (Inr (s, p')) \<Longrightarrow> lvalues_nonempty s"
    using Suc.IH by blast+
  have a: "stmts (Suc n) p stms = Some (Inr (stms', p')) \<longrightarrow> list_all lvalues_nonempty stms
      \<longrightarrow> list_all lvalues_nonempty stms'"
    by (auto simp: ret_returns elim!: bind_returns dest: stmts_IH stmt_IH split: if_splits)
  have b: "stmt (Suc n) p stms = Some (Inr (stms', p')) \<longrightarrow> list_all lvalues_nonempty stms
      \<longrightarrow> list_all lvalues_nonempty stms'"
    by (auto simp: ret_returns Let_def exit_stmt_def elim!: bind_returns
             dest!: cond_IH while_IH for_IH assign_stmt_nonempty split: if_splits)
  have c: "cond_stmt (Suc n) p = Some (Inr (s, p')) \<longrightarrow> lvalues_nonempty s"
    by (auto simp: ret_returns elim!: bind_returns dest!: stmts_IH condt_IH)
  have d: "condt (Suc n) p ei = Some (Inr (ei', p')) \<longrightarrow> list_all lvalues_nonempty_if (fst ei)
      \<longrightarrow> list_all lvalues_nonempty (snd ei)
      \<longrightarrow> list_all lvalues_nonempty_if (fst ei') \<and> list_all lvalues_nonempty (snd ei')"
    by (auto simp: ret_returns elim!: bind_returns dest!: stmts_IH condt_IH split: if_splits)
  have e: "while_stmt (Suc n) p = Some (Inr (s, p')) \<longrightarrow> lvalues_nonempty s"
    by (auto simp: ret_returns elim!: bind_returns dest!: stmts_IH)
  have f: "for_stmt (Suc n) p = Some (Inr (s, p')) \<longrightarrow> lvalues_nonempty s"
    by (auto simp: ret_returns elim!: bind_returns dest!: stmts_IH)
  from a b c d e f show ?case by blast
qed

lemma stmts_from_empty:
  "stmts n p [] = Some (Inr (stms, p')) \<Longrightarrow> list_all lvalues_nonempty stms"
  using stmts_lvalues_nonempty [of n p "[]" stms p'] by simp

text \<open>
  Every declaration of a program that \<open>parse\<close> returns has an empty parameter list and
  no empty lvalue list.
\<close>

lemma fdecl_shape:
  "fdecl n p = Some (Inr (d, p')) \<Longrightarrow> decl_params d = [] \<and> decl_lvalues_nonempty d"
  by (auto simp: fdecl_def ret_returns elim!: bind_returns
           dest!: params_returns_ps stmts_from_empty split: if_splits)

lemma tdecl_shape:
  "tdecl n p = Some (Inr (d, p')) \<Longrightarrow> decl_params d = [] \<and> decl_lvalues_nonempty d"
  by (auto simp: tdecl_def ret_returns elim!: bind_returns)

lemma parse_while_shape:
  "parse_while n p prog = Some (Inr (prog', p'))
   \<Longrightarrow> list_all (\<lambda>d. decl_params d = [] \<and> decl_lvalues_nonempty d) prog
   \<Longrightarrow> list_all (\<lambda>d. decl_params d = [] \<and> decl_lvalues_nonempty d) prog'"
proof (induction n arbitrary: p prog)
  case 0
  then show ?case by simp
next
  case (Suc n)
  from Suc.prems show ?case
    by (auto simp: ret_returns elim!: bind_returns split: if_splits
             dest!: fdecl_shape tdecl_shape intro!: Suc.IH)
qed

lemma parse_shape:
  assumes "parse n p [] = Some (Inr (prog, p'))"
  shows "list_all (\<lambda>d. decl_params d = [] \<and> decl_lvalues_nonempty d) prog"
  using assms parse_while_shape [of n _ "[]"]
  by (auto simp: parse_def ret_returns elim!: bind_returns)

section \<open>Operators and null pointers\<close>

text \<open>\<open>op\<close> on the \<^verbatim>\<open>op\<close> field of a new \<open>Expr\<close> writes through a null pointer.\<close>

lemma op_null:
  "is_operator (type (curr_token p)) \<Longrightarrow> op Null p = Some (Inl NullDereference)"
  by (simp add: op_def write_through_def bind_def)

text \<open>So no expression that \<open>expr\<close> returns has an operator or a rest.\<close>

lemma expr_has_no_operator:
  assumes "expr n exp_ptr p = Some (Inr (Expr negated first oper rest, p'))"
  shows "oper = None \<and> rest = None"
proof (cases n)
  case 0
  with assms show ?thesis by simp
next
  case (Suc m)
  with assms show ?thesis
    by (auto simp: ret_returns op_null elim!: bind_returns split: if_splits)
qed

text \<open>
  \<open>expr\<close> returns nothing when the \<^verbatim>\<open>Expr*\<close> it is given is null. Were the \<^verbatim>\<open>expr\<close> of a
  \<open>ComplexTerm\<close> null in a new node, not allocated, the part of \<^verbatim>\<open>(1 + 2) * 3\<close> after
  the parenthesis would end, as it does on an allocated node, in a write through a null
  pointer.
\<close>

lemma expr_null_never_returns: "expr n Null p \<noteq> Some (Inr v)"
proof (cases n)
  case 0
  then show ?thesis by simp
next
  case (Suc m)
  have "write_through Null \<noteq> Some (Inr u)" for u
    by (simp add: write_through_def)
  then show ?thesis
    unfolding Suc
    by (auto simp: ret_returns elim!: bind_returns split: if_splits)
qed

lemma inner_chain_on_either_pointer:
  "bind (advance (Parser_new (Lexer_new ''1 + 2) * 3''))) (expr 10 Null)
     = Some (Inl NullDereference)
   \<and> bind (advance (Parser_new (Lexer_new ''1 + 2) * 3''))) (expr 10 Allocated)
     = Some (Inl NullDereference)"
  by code_simp

section \<open>The claims\<close>

text \<open>
  Claim C1 says that \<open>parse\<close> terminates on every finite token stream, and that a
  top-level token that is neither \<open>TYPE\<close> nor \<open>FUN\<close> nor \<open>EOS\<close> makes it fail rather than
  loop. The program does otherwise: on the text \<^verbatim>\<open>x\<close>, whose first token is an \<open>ID\<close>,
  \<open>parse\<close> has not returned for any bound \<open>n\<close> on its calls and iterations, that is, it
  never returns and never throws.
\<close>

theorem parse_stray_token_never_returns:
  "parse n (Parser_new (Lexer_new ''x'')) [] = None"
proof -
  have "advance (Parser_new (Lexer_new ''x''))
      = Some (Inr \<lparr>lexer = \<lparr>input_stream = [], line = 1, column = 2\<rparr>,
                    curr_token = Token ID ''x'' 1 1\<rparr>)"
    by code_simp
  then show ?thesis
    by (rule parse_stuck) simp_all
qed

text \<open>
  Claim C2 says that every \<open>AssignStmt\<close> lvalue path and every \<open>IDRValue\<close> path of a parsed
  program has at least one element, and that the r-value \<^verbatim>\<open>x\<close> yields an \<open>IDRValue\<close> whose
  path holds that identifier. The lvalue half holds of every parsed program (lemma
  \<open>parse_shape\<close>). The program does otherwise for \<open>IDRValue\<close>: \<open>rvalue\<close> keeps the
  identifier in a local and \<open>idrval\<close> pushes only what follows a dot. The expression
  \<^verbatim>\<open>x\<close> has the empty path, \<^verbatim>\<open>x.y\<close> has the path \<^verbatim>\<open>y\<close> alone, and in the program
  \<^verbatim>\<open>fun nil f() y = x end\<close> the assignment has the lvalue path \<^verbatim>\<open>y\<close> (which \<open>stmt\<close> does
  push) and the empty r-value path.
\<close>

theorem idrvalue_path_lacks_first_identifier:
  "expr_of_text 10 ''x'' = Some (Inr (Expr False (SimpleTerm (Some (IDRValue []))) None None))
   \<and> expr_of_text 10 ''x.y''
       = Some (Inr (Expr False (SimpleTerm (Some (IDRValue [Token ID ''y'' 1 3]))) None None))
   \<and> program_of_text 20 ''fun nil f() y = x end''
       = Some (Inr [FunDecl (Token NIL ''nil'' 1 5) (Token ID ''f'' 1 9) []
                     [AssignStmt [Token ID ''y'' 1 13]
                        (Expr False (SimpleTerm (Some (IDRValue []))) None None)]])"
  by code_simp

text \<open>
  Claim C3 says that the \<open>FunDecl\<close> of a function declared with \<open>n\<close> parameters holds those
  \<open>n\<close> (id, type) pairs in source order. The program does otherwise: \<open>params\<close> fills a local
  \<open>FunParam\<close> and never pushes it, so that every \<open>FunDecl\<close> it builds has no parameter
  (lemma \<open>parse_shape\<close>). The program \<^verbatim>\<open>fun int f(x: int, y: bool) end\<close> parses to a
  \<open>FunDecl\<close> whose \<open>params\<close> is empty.
\<close>

theorem fundecl_params_stay_empty:
  "program_of_text 20 ''fun int f(x: int, y: bool) end''
     = Some (Inr [FunDecl (Token INT_TYPE ''int'' 1 5) (Token ID ''f'' 1 9) [] []])"
  by code_simp

text \<open>
  Claim C4: in statement position, an identifier followed by a token that is none of
  \<open>LPAREN\<close>, \<open>DOT\<close>, \<open>ASSIGN\<close> raises no error; \<open>stmt\<close> consumes the identifier and pushes no
  statement. Whenever the current token is an \<open>ID\<close> and the lexer's next token \<open>t\<close> is of
  none of the three kinds, \<open>stmt\<close> returns the statement list it was given, with \<open>t\<close> the
  current token; and \<^verbatim>\<open>fun nil f() x end\<close> parses to a function with an empty body.
\<close>

theorem stmt_drops_bare_identifier:
  "(type (curr_token p) = ID \<and> next_token (lexer p) = Some (Inr (t, l))
      \<and> type t \<noteq> LPAREN \<and> type t \<noteq> DOT \<and> type t \<noteq> ASSIGN
    \<longrightarrow> stmt (Suc n) p stms = Some (Inr (stms, p\<lparr>lexer := l, curr_token := t\<rparr>)))
   \<and> program_of_text 20 ''fun nil f() x end''
       = Some (Inr [FunDecl (Token NIL ''nil'' 1 5) (Token ID ''f'' 1 9) [] []])"
proof
  show "type (curr_token p) = ID \<and> next_token (lexer p) = Some (Inr (t, l))
      \<and> type t \<noteq> LPAREN \<and> type t \<noteq> DOT \<and> type t \<noteq> ASSIGN
    \<longrightarrow> stmt (Suc n) p stms = Some (Inr (stms, p\<lparr>lexer := l, curr_token := t\<rparr>))"
    by (simp add: advance_def bind_def ret_def)
  show "program_of_text 20 ''fun nil f() x end''
       = Some (Inr [FunDecl (Token NIL ''nil'' 1 5) (Token ID ''f'' 1 9) [] []])"
    by code_simp
qed

text \<open>C4 at the statement \<^verbatim>\<open>x\<close> before \<^verbatim>\<open>end\<close>: the parser holds the token \<^verbatim>\<open>x\<close> and the
  lexer is about to read \<^verbatim>\<open> end\<close>.\<close>

theorem stmt_drops_bare_identifier_witness:
  "type (curr_token \<lparr>lexer = \<lparr>input_stream = '' end'', line = 1, column = 2\<rparr>,
                     curr_token = Token ID ''x'' 1 1\<rparr>) = ID
   \<and> next_token (lexer \<lparr>lexer = \<lparr>input_stream = '' end'', line = 1, column = 2\<rparr>,
                         curr_token = Token ID ''x'' 1 1\<rparr>)
       = Some (Inr (Token END ''end'' 1 3, \<lparr>input_stream = [], line = 1, column = 6\<rparr>))
   \<and> type (Token END ''end'' 1 3) \<noteq> LPAREN
   \<and> type (Token END ''end'' 1 3) \<noteq> DOT
   \<and> type (Token END ''end'' 1 3) \<noteq> ASSIGN
   \<and> stmt (Suc 0) \<lparr>lexer = \<lparr>input_stream = '' end'', line = 1, column = 2\<rparr>,
                    curr_token = Token ID ''x'' 1 1\<rparr> []
       = Some (Inr ([], \<lparr>lexer = \<lparr>input_stream = [], line = 1, column = 6\<rparr>,
                         curr_token = Token END ''end'' 1 3\<rparr>))"
proof -
  let ?p = "\<lparr>lexer = \<lparr>input_stream = '' end'', line = 1, column = 2\<rparr>,
             curr_token = Token ID ''x'' 1 1\<rparr>"
  let ?t = "Token END ''end'' 1 3"
  let ?l = "\<lparr>input_stream = [], line = 1, column = 6\<rparr>"
  have nt: "next_token \<lparr>input_stream = '' end'', line = 1, column = 2\<rparr> = Some (Inr (?t, ?l))"
    by code_simp
  have hyp: "type (curr_token ?p) = ID \<and> next_token (lexer ?p) = Some (Inr (?t, ?l))
      \<and> type ?t \<noteq> LPAREN \<and> type ?t \<noteq> DOT \<and> type ?t \<noteq> ASSIGN"
    using nt by simp
  from stmt_drops_bare_identifier [where p = ?p and t = ?t and l = ?l and n = 0 and stms = "[]"]
  have "stmt (Suc 0) ?p [] = Some (Inr ([], ?p\<lparr>lexer := ?l, curr_token := ?t\<rparr>))"
    using hyp by blast
  with hyp show ?thesis
    by simp
qed

text \<open>
  Claim C5 says that \<open>next_token\<close> returns a token on every finite input, and an \<open>EOS\<close>
  token when the input ends inside a comment. The program does otherwise: on the text
  \<^verbatim>\<open>#abc\<close>, a comment with no newline before the end of the stream, \<open>next_token\<close> never
  returns.
\<close>

theorem next_token_comment_at_end_never_returns:
  "next_token (Lexer_new ''#abc'') = None"
  by (rule next_token_unterminated_comment) simp

text \<open>
  Claim C6 says that digits, a dot and at least one more digit lex to one \<open>DOUBLE_VAL\<close>
  token in any following context, and that digits and a dot with no digit after it are a
  lexical error. The program does otherwise on both counts, since after the fraction it
  tests only that a whitespace character follows: \<^verbatim>\<open>3.14)\<close> and \<^verbatim>\<open>3.14\<close> at the end of
  the stream are lexical errors, and \<^verbatim>\<open>3.\<close> before a space is the \<open>DOUBLE_VAL\<close> token
  \<^verbatim>\<open>3.\<close>. Only a double followed by whitespace is returned as the claim says.
\<close>

theorem double_literal_accepted_only_before_space:
  "next_token (Lexer_new ''3.14)'') = Some (Inl (MyPLException LEXER ''Invalid double value'' 1 5))
   \<and> next_token (Lexer_new ''3.14'') = Some (Inl (MyPLException LEXER ''Invalid double value'' 1 5))
   \<and> next_token (Lexer_new ''3. '')
       = Some (Inr (Token DOUBLE_VAL ''3.'' 1 1, \<lparr>input_stream = '' '', line = 1, column = 3\<rparr>))
   \<and> next_token (Lexer_new ''3.14 '')
       = Some (Inr (Token DOUBLE_VAL ''3.14'' 1 1, \<lparr>input_stream = '' '', line = 1, column = 5\<rparr>))"
  by code_simp

text \<open>
  Claim C7 says that in a string literal a backslash escapes the next character, so that
  the scan stops at the first quote that is not escaped and consumes nothing beyond it.
  The program does otherwise when the escaped quote is the last character of the string:
  after the backslash and the quote the loop appends one more character without looking
  at it, here the closing quote. The literal \<^verbatim>\<open>"a\""\<close> followed by a newline is a lexical
  error (the scan runs on to the end of the line), and followed by \<^verbatim>\<open> + "b\<close> it is one
  \<open>STRING_VAL\<close> token that reaches to the next quote. On \<^verbatim>\<open>"a\"b"\<close> the token ends at
  the closing quote, and its lexeme keeps the backslash.
\<close>

theorem escaped_quote_swallows_closing_quote:
  "next_token (Lexer_new ([CHR 0x22, CHR ''a'', CHR 0x5C, CHR 0x22, CHR 0x22, CHR 0x0A]))
     = Some (Inl (MyPLException LEXER (''Expecting '' @ [CHR 0x22]) 1 7))
   \<and> tokenize 5 (Lexer_new ([CHR 0x22, CHR ''a'', CHR 0x5C, CHR 0x22, CHR 0x22] @ '' + ''
                              @ [CHR 0x22, CHR ''b'']))
       = Some (Inr [Token STRING_VAL ([CHR ''a'', CHR 0x5C, CHR 0x22, CHR 0x22] @ '' + '') 1 1,
                    Token ID ''b'' 1 10, Token EOS [] 1 11])
   \<and> tokenize 5 (Lexer_new ([CHR 0x22, CHR ''a'', CHR 0x5C, CHR 0x22, CHR ''b'', CHR 0x22]))
       = Some (Inr [Token STRING_VAL [CHR ''a'', CHR 0x5C, CHR 0x22, CHR ''b''] 1 1,
                    Token EOS [] 1 7])"
  by code_simp

text \<open>
  Claim C8 says that token columns are 1-based: \<^verbatim>\<open>x\<close> after two spaces is at column 3,
  and the first token of the line after a newline is at column 1 of the next line. The
  program does the first, and the line is one greater, but after a newline it sets the
  column to 0 after the \<open>read\<close> that counted the newline: in \<^verbatim>\<open>a\<close>, newline, \<^verbatim>\<open>b\<close> the token
  \<^verbatim>\<open>b\<close> is at line 2, column 0. After the newline that ends a comment the program sets the
  column to 0 before that \<open>read\<close>, and there the next token is at column 1.
\<close>

theorem column_after_newline_is_zero:
  "tokenize 5 (Lexer_new ''  x'') = Some (Inr [Token ID ''x'' 1 3, Token EOS [] 1 4])
   \<and> tokenize 5 (Lexer_new (''a'' @ [CHR 0x0A] @ ''b''))
       = Some (Inr [Token ID ''a'' 1 1, Token ID ''b'' 2 0, Token EOS [] 2 1])
   \<and> tokenize 5 (Lexer_new (''#c'' @ [CHR 0x0A] @ ''b''))
       = Some (Inr [Token ID ''b'' 2 1, Token EOS [] 2 2])"
  by code_simp

text \<open>
  Claim C9 says that a trailing comma in a parameter list or an argument list is a syntax
  error. The program does otherwise: after a comma \<open>params\<close> and \<open>args\<close> call themselves,
  and both return without an error when the next token is \<open>RPAREN\<close>. The programs
  \<^verbatim>\<open>fun int f(x: int,) end\<close> and \<^verbatim>\<open>fun nil f() g(1,) end\<close> are both parsed.
\<close>

theorem trailing_comma_is_accepted:
  "program_of_text 20 ''fun int f(x: int,) end''
     = Some (Inr [FunDecl (Token INT_TYPE ''int'' 1 5) (Token ID ''f'' 1 9) [] []])
   \<and> program_of_text 20 ''fun nil f() g(1,) end''
       = Some (Inr [FunDecl (Token NIL ''nil'' 1 5) (Token ID ''f'' 1 9) []
                     [CallExprStmt (Token ID ''g'' 1 13)
                        [Expr False (SimpleTerm (Some (SimpleRValue (Token INT_VAL ''1'' 1 15))))
                           None None]]])"
  by code_simp

text \<open>
  Claim C10 says that a chain of binary operators is grouped to the right, whatever the
  operators: \<^verbatim>\<open>1 + 2 * 3\<close> is parsed to the term 1, the operator \<^verbatim>\<open>+\<close> and as rest the
  chain \<^verbatim>\<open>2 * 3\<close>, as \<^verbatim>\<open>1 + (2 * 3)\<close> is but for the \<open>ComplexTerm\<close> of its parentheses,
  and unlike \<^verbatim>\<open>(1 + 2) * 3\<close>. The program builds none of the three expressions. After
  the first term it finds the operator and calls \<^verbatim>\<open>op(exp->op)\<close> and \<^verbatim>\<open>expr(exp->rest)\<close>,
  the calls that would build the right-grouped chain, on two fields that nothing has
  allocated, and \<^verbatim>\<open>op\<close> writes the token through the null pointer. Each of the three
  texts ends there at its first operator, and so does \<^verbatim>\<open>1 + 2 * 3\<close> as the argument of a
  call in a program, where \<open>args\<close> itself allocates the \<open>Expr\<close>.
\<close>

theorem operator_writes_through_null:
  "expr_of_text 10 ''1 + 2 * 3'' = Some (Inl NullDereference)
   \<and> expr_of_text 10 ''1 + (2 * 3)'' = Some (Inl NullDereference)
   \<and> expr_of_text 10 ''(1 + 2) * 3'' = Some (Inl NullDereference)
   \<and> program_of_text 20 ''fun nil f() g(1 + 2 * 3) end'' = Some (Inl NullDereference)"
  by code_simp

end
